theory Spec2Isabelle
  imports Complex_Main
begin

section \<open>Python values, errors and the outside world\<close>

text \<open>
  The agents exchange JSON with HTTP services and keep their data in Python dictionaries.
  A value that comes out of \<^verbatim>\<open>json.loads\<close> or \<^verbatim>\<open>response.json()\<close> is a \<open>pyval\<close>;
  a dictionary is an association list read with \<open>map_of\<close> (first binding wins).
  Python floats are modelled by real numbers (no NaN, no infinities, no rounding).
\<close>

datatype pyval =
    PNone
  | PBool bool
  | PInt int
  | PFloat real
  | PStr string
  | PList "pyval list"
  | PDict "(string \<times> pyval) list"

datatype error =
    AttributeError
  | TypeError
  | KeyError
  | IndexError
  | ValueError
  | Exception string

text \<open>What one HTTP request does: it raises, or it returns a status code and a body;
  the body is \<open>None\<close> when \<^verbatim>\<open>response.json()\<close> would raise on it.\<close>

datatype http_outcome =
    Connection_error
  | Timeout_error
  | Request_error
  | Http_response int "pyval option"

text \<open>
  The world of the ReAct agent: the outcome of the n-th POST to the generation endpoint,
  \<^verbatim>\<open>json.loads\<close> (\<open>None\<close> where it raises) and the n-th reading of
  \<^verbatim>\<open>datetime.datetime.now().isoformat()\<close>. The prompt text only influences what the
  service answers, which the world supplies, so prompts are not built.
\<close>

record world =
  http_post :: "nat \<Rightarrow> http_outcome"
  json_loads :: "string \<Rightarrow> pyval option"
  clock :: "nat \<Rightarrow> string"

subsection \<open>Helpers for Python's built-ins\<close>

text \<open>\<^verbatim>\<open>d.get(k, default)\<close>; on a value that is no dictionary it raises AttributeError.\<close>

definition py_get :: "pyval \<Rightarrow> string \<Rightarrow> pyval \<Rightarrow> error + pyval" where
  "py_get d k dflt =
     (case d of
        PDict kv \<Rightarrow> Inr (case map_of kv k of Some v \<Rightarrow> v | None \<Rightarrow> dflt)
      | _ \<Rightarrow> Inl AttributeError)"

text \<open>The number a value stands for in \<^verbatim>\<open>x + 0.1\<close>; \<open>None\<close> where Python raises TypeError.\<close>

fun to_num :: "pyval \<Rightarrow> real option" where
  "to_num (PBool b) = Some (if b then 1 else 0)"
| "to_num (PInt i) = Some (of_int i)"
| "to_num (PFloat r) = Some r"
| "to_num _ = None"

text \<open>Lists and dictionaries cannot be dictionary keys.\<close>

fun hashable :: "pyval \<Rightarrow> bool" where
  "hashable (PList _) = False"
| "hashable (PDict _) = False"
| "hashable _ = True"

fun is_prefix :: "string \<Rightarrow> string \<Rightarrow> bool" where
  "is_prefix [] ys = True"
| "is_prefix (x # xs) [] = False"
| "is_prefix (x # xs) (y # ys) = (x = y \<and> is_prefix xs ys)"

text \<open>\<^verbatim>\<open>sub in s\<close> on strings.\<close>

fun contains :: "string \<Rightarrow> string \<Rightarrow> bool" where
  "contains sub [] = (sub = [])"
| "contains sub (c # cs) = (is_prefix sub (c # cs) \<or> contains sub cs)"

text \<open>\<^verbatim>\<open>s.lower()\<close> on ASCII text.\<close>

definition lower_char :: "char \<Rightarrow> char" where
  "lower_char c =
     (case map_of (zip ''ABCDEFGHIJKLMNOPQRSTUVWXYZ'' ''abcdefghijklmnopqrstuvwxyz'') c of
        Some d \<Rightarrow> d
      | None \<Rightarrow> c)"

definition lower :: "string \<Rightarrow> string" where
  "lower s = map lower_char s"

text \<open>\<^verbatim>\<open>str(n)\<close> for an integer.\<close>

definition digit_char :: "nat \<Rightarrow> char" where
  "digit_char d = ''0123456789'' ! d"

fun str_nat :: "nat \<Rightarrow> string" where
  "str_nat n = (if n < 10 then [digit_char n] else str_nat (n div 10) @ [digit_char (n mod 10)])"

definition str_int :: "int \<Rightarrow> string" where
  "str_int i = (if i < 0 then CHR ''-'' # str_nat (nat (- i)) else str_nat (nat i))"

section \<open>The ReAct weather planner (01-ReAct/01-Example)\<close>

subsection \<open>config.py\<close>

definition DEFAULT_CITY :: string where
  "DEFAULT_CITY = ''London''"

definition MAX_PLANNING_ITERATIONS :: nat where
  "MAX_PLANNING_ITERATIONS = 5"

definition PLANNING_CONFIDENCE_THRESHOLD :: real where
  "PLANNING_CONFIDENCE_THRESHOLD = 7 / 10"

definition outdoor_activity_steps :: "string list" where
  "outdoor_activity_steps =
     [''Analyze weather conditions'',
      ''Identify suitable activities'',
      ''Plan activity timeline'',
      ''Prepare contingency plans'',
      ''Finalize activity plan'']"

definition travel_planning_steps :: "string list" where
  "travel_planning_steps =
     [''Research destination weather'',
      ''Plan weather-appropriate activities'',
      ''Pack appropriate clothing'',
      ''Plan indoor alternatives'',
      ''Create flexible itinerary'']"

definition daily_schedule_steps :: "string list" where
  "daily_schedule_steps =
     [''Check weather forecast'',
      ''Optimize outdoor activities'',
      ''Schedule indoor alternatives'',
      ''Plan weather-dependent tasks'',
      ''Create flexible schedule'']"

text \<open>Each template is a dictionary with the single key \<^verbatim>\<open>"steps"\<close>; the table maps the
  task type to that list.\<close>

definition PLANNING_TEMPLATES :: "(string \<times> string list) list" where
  "PLANNING_TEMPLATES =
     [(''outdoor_activity'', outdoor_activity_steps),
      (''travel_planning'', travel_planning_steps),
      (''daily_schedule'', daily_schedule_steps)]"

subsection \<open>Data\<close>

text \<open>The result dictionary of an action: \<^verbatim>\<open>status\<close>, \<^verbatim>\<open>success\<close>, and the keys a step
  handler adds (absent keys are \<open>None\<close>).\<close>

record action_result =
  r_status :: string
  r_success :: bool
  r_weather_conditions :: "(string \<times> string) list option"
  r_activities :: "string list option"
  r_contingency_plans :: "string list option"
  r_message :: "string option"

record completed_step =
  cs_step :: string
  cs_step_index :: nat
  cs_result :: action_result
  cs_completed_at :: string

text \<open>
  The list under \<^verbatim>\<open>plan["completed_steps"]\<close> is a Python object that is appended to in
  place, and \<^verbatim>\<open>plan.copy()\<close> copies the reference to it, not the list. So the plan holds
  the address of the list and the lists live in a heap. Every other entry of the plan is
  only ever rebound to a new value, never mutated, and is kept as a value.
\<close>

type_synonym addr = nat

record summary_fields =
  sum_task_type :: pyval
  sum_status :: string
  sum_confidence :: pyval
  sum_steps_completed :: nat
  sum_weather_conditions :: "(string \<times> string) list"
  sum_activities :: "string list"
  sum_contingency_plans :: "string list"
  sum_created_at :: string
  sum_completed_at :: string

record plan =
  task_type :: pyval
  status :: string
  steps :: "string list"
  current_step :: nat
  completed_steps :: addr
  weather_conditions :: "(string \<times> string) list"
  activities :: "string list"
  contingency_plans :: "string list"
  confidence :: pyval
  created_at :: string
  completed_at :: "string option"
  summary :: "summary_fields option"

record history_entry =
  h_iteration :: nat
  h_action_result :: action_result
  h_plan_state :: plan
  h_timestamp :: string

text \<open>The agent object, the heap of completed-step lists, and how many POSTs and clock
  readings have happened so far.\<close>

record agent =
  current_plan :: "plan option"
  planning_iteration :: nat
  planning_history :: "history_entry list"
  heap :: "addr \<Rightarrow> completed_step list"
  next_addr :: addr
  api_calls :: nat
  clock_reads :: nat

text \<open>\<^verbatim>\<open>ReActWeatherAgent.__init__\<close>\<close>

definition init_agent :: agent where
  "init_agent =
     \<lparr>current_plan = None, planning_iteration = 0, planning_history = [],
      heap = (\<lambda>_. []), next_addr = 0, api_calls = 0, clock_reads = 0\<rparr>"

text \<open>\<^verbatim>\<open>datetime.datetime.now().isoformat()\<close>\<close>

definition now_isoformat :: "world \<Rightarrow> agent \<Rightarrow> string \<times> agent" where
  "now_isoformat w st = (clock w (clock_reads st), st\<lparr>clock_reads := clock_reads st + 1\<rparr>)"

subsection \<open>The generation endpoint\<close>

text \<open>\<^verbatim>\<open>_call_ollama_api\<close>: one POST; every failure is re-raised as an \<^verbatim>\<open>Exception\<close>.\<close>

definition call_ollama_api :: "world \<Rightarrow> agent \<Rightarrow> (error + pyval) \<times> agent" where
  "call_ollama_api w st =
     ((case http_post w (api_calls st) of
         Connection_error \<Rightarrow> Inl (Exception ''Cannot connect to Ollama'')
       | Timeout_error \<Rightarrow> Inl (Exception ''Ollama request timed out'')
       | Request_error \<Rightarrow> Inl (Exception ''Error calling Ollama API'')
       | Http_response code body \<Rightarrow>
           if code = 200 then
             (case body of
                Some (PDict kv) \<Rightarrow>
                  Inr (case map_of kv ''response'' of Some v \<Rightarrow> v | None \<Rightarrow> PStr [])
              | _ \<Rightarrow> Inl (Exception ''Error calling Ollama API''))
           else Inl (Exception ''Error calling Ollama API'')),
      st\<lparr>api_calls := api_calls st + 1\<rparr>)"

subsection \<open>Task Analyzer\<close>

definition default_analysis :: pyval where
  "default_analysis =
     PDict [(''task_type'', PStr ''general_weather_planning''),
            (''weather_requirements'', PStr ''moderate_conditions''),
            (''time_horizon'', PInt 3),
            (''location'', PStr DEFAULT_CITY),
            (''constraints'', PStr ''none''),
            (''success_criteria'', PStr ''successful_activity_completion''),
            (''confidence'', PFloat (1 / 2))]"

text \<open>\<^verbatim>\<open>json.loads(response)\<close> inside the \<^verbatim>\<open>try\<close>: it raises on a response that is no
  string and on a string that is no JSON.\<close>

definition parse_response :: "world \<Rightarrow> pyval \<Rightarrow> pyval option" where
  "parse_response w response = (case response of PStr s \<Rightarrow> json_loads w s | _ \<Rightarrow> None)"

text \<open>\<^verbatim>\<open>_analyze_task\<close>\<close>

definition analyze_task :: "world \<Rightarrow> string \<Rightarrow> agent \<Rightarrow> pyval \<times> agent" where
  "analyze_task w task_description st =
     (case call_ollama_api w st of
        (Inl e, st') \<Rightarrow> (default_analysis, st')
      | (Inr response, st') \<Rightarrow>
          (case parse_response w response of
             Some analysis \<Rightarrow> (analysis, st')
           | None \<Rightarrow> (default_analysis, st')))"

text \<open>A call whose result the \<^verbatim>\<open>try\<close> block cannot use: the call raised, or
  \<^verbatim>\<open>json.loads\<close> raises on what it returned.\<close>

definition unusable :: "world \<Rightarrow> error + pyval \<Rightarrow> bool" where
  "unusable w r = (case r of Inl e \<Rightarrow> True | Inr response \<Rightarrow> parse_response w response = None)"

subsection \<open>Plan Builder\<close>

text \<open>
  \<^verbatim>\<open>_create_initial_plan\<close>. The template lookup hashes the task type, so a list or a
  dictionary there raises TypeError; a task type that is no key of the table gets the
  \<^verbatim>\<open>outdoor_activity\<close> template. The new plan owns a fresh, empty list of completed steps.
\<close>

definition template_steps :: "pyval \<Rightarrow> string list" where
  "template_steps tt =
     (case tt of
        PStr s \<Rightarrow>
          (case map_of PLANNING_TEMPLATES s of Some t \<Rightarrow> t | None \<Rightarrow> outdoor_activity_steps)
      | _ \<Rightarrow> outdoor_activity_steps)"

definition create_initial_plan :: "world \<Rightarrow> pyval \<Rightarrow> agent \<Rightarrow> (error + plan) \<times> agent" where
  "create_initial_plan w task_analysis st =
     (case py_get task_analysis ''task_type'' (PStr ''general_weather_planning'') of
        Inl e \<Rightarrow> (Inl e, st)
      | Inr tt \<Rightarrow>
          if \<not> hashable tt then (Inl TypeError, st)
          else
            (case py_get task_analysis ''confidence'' (PFloat (1 / 2)) of
               Inl e \<Rightarrow> (Inl e, st)
             | Inr conf \<Rightarrow>
                 (case now_isoformat w st of
                    (t, st1) \<Rightarrow>
                      (Inr \<lparr>task_type = tt, status = ''planning'', steps = template_steps tt,
                            current_step = 0, completed_steps = next_addr st1,
                            weather_conditions = [], activities = [], contingency_plans = [],
                            confidence = conf, created_at = t, completed_at = None,
                            summary = None\<rparr>,
                       st1\<lparr>heap := (heap st1)(next_addr st1 := []),
                            next_addr := next_addr st1 + 1\<rparr>))))"

subsection \<open>Step handlers\<close>

record forecast_day =
  f_day :: string
  f_temp :: int
  f_condition :: string

record weather_data =
  wd_location :: pyval
  wd_temperature :: int
  wd_humidity :: int
  wd_wind_speed :: int
  wd_description :: string
  wd_forecast :: "forecast_day list"

text \<open>\<^verbatim>\<open>_get_weather_data\<close>: the mock data.\<close>

definition get_weather_data :: "pyval \<Rightarrow> weather_data" where
  "get_weather_data location =
     \<lparr>wd_location = location, wd_temperature = 22, wd_humidity = 65, wd_wind_speed = 10,
      wd_description = ''partly cloudy'',
      wd_forecast =
        [\<lparr>f_day = ''today'', f_temp = 22, f_condition = ''partly cloudy''\<rparr>,
         \<lparr>f_day = ''tomorrow'', f_temp = 25, f_condition = ''sunny''\<rparr>,
         \<lparr>f_day = ''day_after'', f_temp = 20, f_condition = ''rainy''\<rparr>]\<rparr>"

text \<open>\<^verbatim>\<open>_analyze_weather_conditions\<close>; the degree sign is the two bytes of its UTF-8
  encoding.\<close>

definition analyze_weather_conditions :: "weather_data \<Rightarrow> (string \<times> string) list" where
  "analyze_weather_conditions wd =
     [(''overall_condition'', wd_description wd),
      (''temperature_range'', str_int (wd_temperature wd) @ [CHR 0xC2, CHR 0xB0] @ ''C''),
      (''humidity'', str_int (wd_humidity wd) @ ''%''),
      (''wind_conditions'', str_int (wd_wind_speed wd) @ '' km/h''),
      (''planning_recommendation'',
         if wd_temperature wd > 15 then ''suitable_for_outdoor_activities''
         else ''consider_indoor_alternatives'')]"

text \<open>\<^verbatim>\<open>_select_weather_appropriate_activities\<close>\<close>

definition select_weather_appropriate_activities ::
    "(string \<times> string) list \<Rightarrow> pyval \<Rightarrow> string list" where
  "select_weather_appropriate_activities wc task_analysis =
     (let recommendation =
            (case map_of wc ''planning_recommendation'' of Some r \<Rightarrow> r | None \<Rightarrow> [])
      in if contains ''outdoor'' recommendation
         then [''hiking'', ''picnic'', ''outdoor_photography'', ''gardening'']
         else [''indoor_museum'', ''cooking'', ''reading'', ''indoor_exercise''])"

text \<open>\<^verbatim>\<open>_create_contingency_plans\<close>\<close>

definition create_contingency_plans :: "plan \<Rightarrow> pyval \<Rightarrow> string list" where
  "create_contingency_plans p task_analysis =
     [''Indoor alternative activities'',
      ''Weather-appropriate clothing recommendations'',
      ''Flexible timing for outdoor activities'',
      ''Emergency weather response plan'']"

text \<open>\<^verbatim>\<open>_execute_weather_step\<close>\<close>

definition execute_weather_step :: "plan \<Rightarrow> pyval \<Rightarrow> error + action_result \<times> plan" where
  "execute_weather_step p task_analysis =
     (case py_get task_analysis ''location'' (PStr DEFAULT_CITY) of
        Inl e \<Rightarrow> Inl e
      | Inr location \<Rightarrow>
          (let weather_analysis = analyze_weather_conditions (get_weather_data location)
           in Inr (\<lparr>r_status = ''weather_analyzed'', r_success = True,
                    r_weather_conditions = Some weather_analysis, r_activities = None,
                    r_contingency_plans = None,
                    r_message = Some ''Weather conditions analyzed successfully''\<rparr>,
                   p\<lparr>weather_conditions := weather_analysis\<rparr>)))"

text \<open>\<^verbatim>\<open>_execute_activity_step\<close>\<close>

definition execute_activity_step :: "plan \<Rightarrow> pyval \<Rightarrow> error + action_result \<times> plan" where
  "execute_activity_step p task_analysis =
     (let acts = select_weather_appropriate_activities (weather_conditions p) task_analysis
      in Inr (\<lparr>r_status = ''activities_planned'', r_success = True,
               r_weather_conditions = None, r_activities = Some acts,
               r_contingency_plans = None,
               r_message = Some ''Activities planned successfully''\<rparr>,
              p\<lparr>activities := acts\<rparr>))"

text \<open>\<^verbatim>\<open>_execute_contingency_step\<close>\<close>

definition execute_contingency_step :: "plan \<Rightarrow> pyval \<Rightarrow> error + action_result \<times> plan" where
  "execute_contingency_step p task_analysis =
     (let cps = create_contingency_plans p task_analysis
      in Inr (\<lparr>r_status = ''contingencies_planned'', r_success = True,
               r_weather_conditions = None, r_activities = None,
               r_contingency_plans = Some cps,
               r_message = Some ''Contingency plans created successfully''\<rparr>,
              p\<lparr>contingency_plans := cps\<rparr>))"

text \<open>\<^verbatim>\<open>_execute_general_step\<close> (the one-second sleep is left out)\<close>

definition execute_general_step ::
    "string \<Rightarrow> plan \<Rightarrow> pyval \<Rightarrow> error + action_result \<times> plan" where
  "execute_general_step step p task_analysis =
     Inr (\<lparr>r_status = ''step_completed'', r_success = True,
           r_weather_conditions = None, r_activities = None, r_contingency_plans = None,
           r_message = Some (''Step '' @ [CHR 0x27] @ step @ [CHR 0x27] @ '' completed successfully'')\<rparr>,
          p)"

subsection \<open>Iteration Engine\<close>

text \<open>The action dictionary built by \<^verbatim>\<open>_determine_next_action\<close>; the keys \<^verbatim>\<open>step\<close> and
  \<^verbatim>\<open>step_index\<close> are absent from a \<^verbatim>\<open>finalize_plan\<close> action.\<close>

record action =
  a_type :: string
  a_step :: "string option"
  a_step_index :: "nat option"
  a_priority :: string

text \<open>\<^verbatim>\<open>_reason_about_current_state\<close>: one generation call, with a fixed record when it
  fails. The plan and the task analysis only go into the prompt.\<close>

definition default_reasoning :: pyval where
  "default_reasoning =
     PDict [(''current_status'', PStr ''planning_in_progress''),
            (''issues_identified'', PList []),
            (''next_priorities'', PList [PStr ''continue_planning'']),
            (''reasoning'', PStr ''Basic planning continuation''),
            (''confidence'', PFloat (1 / 2))]"

definition reason_about_current_state ::
    "world \<Rightarrow> plan \<Rightarrow> pyval \<Rightarrow> agent \<Rightarrow> pyval \<times> agent" where
  "reason_about_current_state w p task_analysis st =
     (case call_ollama_api w st of
        (Inl e, st') \<Rightarrow> (default_reasoning, st')
      | (Inr response, st') \<Rightarrow>
          (case parse_response w response of
             Some reasoning \<Rightarrow> (reasoning, st')
           | None \<Rightarrow> (default_reasoning, st')))"

text \<open>\<^verbatim>\<open>_determine_next_action\<close>\<close>

definition determine_next_action :: "plan \<Rightarrow> pyval \<Rightarrow> action" where
  "determine_next_action p reasoning =
     (if current_step p < length (steps p)
      then \<lparr>a_type = ''execute_step'', a_step = Some (steps p ! current_step p),
            a_step_index = Some (current_step p), a_priority = ''high''\<rparr>
      else \<lparr>a_type = ''finalize_plan'', a_step = None, a_step_index = None,
            a_priority = ''high''\<rparr>)"

text \<open>
  \<^verbatim>\<open>_execute_planning_step\<close>: the handler is chosen by the first of the words
  \<^verbatim>\<open>weather\<close>, \<^verbatim>\<open>activity\<close>, \<^verbatim>\<open>contingency\<close> found in the lower-cased step name; then a
  record is appended in place to the plan's list of completed steps and the step index moves on.
\<close>

definition execute_planning_step ::
    "world \<Rightarrow> action \<Rightarrow> plan \<Rightarrow> pyval \<Rightarrow> agent \<Rightarrow> (error + action_result \<times> plan) \<times> agent" where
  "execute_planning_step w act p task_analysis st =
     (case a_step act of
        None \<Rightarrow> (Inl KeyError, st)
      | Some step \<Rightarrow>
     (case a_step_index act of
        None \<Rightarrow> (Inl KeyError, st)
      | Some step_index \<Rightarrow>
     (case (if contains ''weather'' (lower step) then execute_weather_step p task_analysis
            else if contains ''activity'' (lower step) then execute_activity_step p task_analysis
            else if contains ''contingency'' (lower step)
              then execute_contingency_step p task_analysis
            else execute_general_step step p task_analysis) of
        Inl e \<Rightarrow> (Inl e, st)
      | Inr (result, p1) \<Rightarrow>
          (case now_isoformat w st of
             (t, st1) \<Rightarrow>
               (Inr (result, p1\<lparr>current_step := step_index + 1\<rparr>),
                st1\<lparr>heap := (heap st1)(completed_steps p1 :=
                       heap st1 (completed_steps p1) @
                         [\<lparr>cs_step = step, cs_step_index = step_index, cs_result = result,
                           cs_completed_at = t\<rparr>])\<rparr>)))))"

text \<open>\<^verbatim>\<open>_execute_action\<close>. The class defines no method \<^verbatim>\<open>_finalize_planning\<close>, so the
  \<^verbatim>\<open>finalize_plan\<close> branch raises AttributeError.\<close>

definition execute_action ::
    "world \<Rightarrow> action \<Rightarrow> plan \<Rightarrow> pyval \<Rightarrow> agent \<Rightarrow> (error + action_result \<times> plan) \<times> agent" where
  "execute_action w act p task_analysis st =
     (if a_type act = ''execute_step'' then execute_planning_step w act p task_analysis st
      else if a_type act = ''finalize_plan'' then (Inl AttributeError, st)
      else (Inr (\<lparr>r_status = ''unknown_action'', r_success = False,
                  r_weather_conditions = None, r_activities = None,
                  r_contingency_plans = None, r_message = None\<rparr>, p), st))"

text \<open>
  \<^verbatim>\<open>_update_plan_based_on_result\<close>. \<^verbatim>\<open>plan["confidence"] + 0.1\<close> raises TypeError on a
  confidence that is no number. The history entry stores \<^verbatim>\<open>plan.copy()\<close>, a shallow
  copy: the entries of the plan, among them the address of the completed-steps list.
\<close>

definition update_confidence :: "bool \<Rightarrow> real \<Rightarrow> real" where
  "update_confidence ok c = (if ok then min (c + 1 / 10) 1 else max (c - 1 / 10) 0)"

definition update_plan_based_on_result ::
    "world \<Rightarrow> plan \<Rightarrow> action_result \<Rightarrow> agent \<Rightarrow> (error + plan) \<times> agent" where
  "update_plan_based_on_result w p action_result st =
     (let p1 = p\<lparr>status := (if r_success action_result then ''planning_in_progress''
                             else ''planning_failed'')\<rparr>
      in case to_num (confidence p1) of
           None \<Rightarrow> (Inl TypeError, st)
         | Some c \<Rightarrow>
             (let p2 = p1\<lparr>confidence := PFloat (update_confidence (r_success action_result) c)\<rparr>
              in case now_isoformat w st of
                   (t, st1) \<Rightarrow>
                     (Inr p2,
                      st1\<lparr>planning_history := planning_history st1 @
                             [\<lparr>h_iteration = planning_iteration st1,
                               h_action_result = action_result,
                               h_plan_state = p2, h_timestamp = t\<rparr>]\<rparr>)))"

text \<open>\<^verbatim>\<open>_is_planning_complete\<close>; the comparison with the threshold raises TypeError on a
  confidence that is no number.\<close>

definition is_planning_complete :: "plan \<Rightarrow> error + bool" where
  "is_planning_complete p =
     (case to_num (confidence p) of
        None \<Rightarrow> Inl TypeError
      | Some c \<Rightarrow>
          Inr (current_step p \<ge> length (steps p)
               \<and> c \<ge> PLANNING_CONFIDENCE_THRESHOLD
               \<and> weather_conditions p \<noteq> [] \<and> activities p \<noteq> []
               \<and> contingency_plans p \<noteq> []))"

text \<open>One pass through the body of the \<^verbatim>\<open>while\<close> loop, steps 1 to 4: reason, determine
  the next action, execute it, update the plan.\<close>

definition planning_cycle ::
    "world \<Rightarrow> pyval \<Rightarrow> plan \<Rightarrow> agent \<Rightarrow> (error + plan) \<times> agent" where
  "planning_cycle w task_analysis p st =
     (case reason_about_current_state w p task_analysis st of
        (reasoning, st1) \<Rightarrow>
          (case execute_action w (determine_next_action p reasoning) p task_analysis st1 of
             (Inl e, st2) \<Rightarrow> (Inl e, st2)
           | (Inr (action_result, p2), st2) \<Rightarrow>
               update_plan_based_on_result w p2 action_result st2))"

text \<open>No part of a cycle writes \<^verbatim>\<open>self.planning_iteration\<close>; the loop below terminates
  because of that.\<close>

lemma reason_iter:
  "reason_about_current_state w p ta st = (r, st') \<Longrightarrow>
     planning_iteration st' = planning_iteration st"
  by (auto simp: reason_about_current_state_def call_ollama_api_def
      split: prod.splits sum.splits option.splits)

lemma execute_action_iter:
  "execute_action w a p ta st = (r, st') \<Longrightarrow> planning_iteration st' = planning_iteration st"
  by (auto simp: execute_action_def execute_planning_step_def now_isoformat_def
      split: if_splits option.splits sum.splits prod.splits)

lemma update_iter:
  "update_plan_based_on_result w p ar st = (r, st') \<Longrightarrow>
     planning_iteration st' = planning_iteration st"
  by (auto simp: update_plan_based_on_result_def now_isoformat_def Let_def
      split: if_splits option.splits sum.splits prod.splits)

lemma planning_cycle_iter:
  "planning_cycle w ta p st = (r, st') \<Longrightarrow> planning_iteration st' = planning_iteration st"
  unfolding planning_cycle_def
  by (auto split: prod.splits sum.splits)
     (metis reason_iter execute_action_iter update_iter)+

text \<open>The \<^verbatim>\<open>while\<close> loop of \<^verbatim>\<open>_execute_planning_iterations\<close>: step 5 is the completeness
  check with its \<^verbatim>\<open>break\<close>; otherwise the iteration counter goes up by one.\<close>

function planning_loop :: "world \<Rightarrow> pyval \<Rightarrow> plan \<Rightarrow> agent \<Rightarrow> (error + plan) \<times> agent" where
  "planning_loop w task_analysis p st =
     (if planning_iteration st < MAX_PLANNING_ITERATIONS then
        (case planning_cycle w task_analysis p st of
           (Inl e, st') \<Rightarrow> (Inl e, st')
         | (Inr p', st') \<Rightarrow>
             (case is_planning_complete p' of
                Inl e \<Rightarrow> (Inl e, st')
              | Inr done \<Rightarrow>
                  if done then (Inr p', st')
                  else planning_loop w task_analysis p'
                         (st'\<lparr>planning_iteration := planning_iteration st' + 1\<rparr>)))
      else (Inr p, st))"
  by pat_completeness auto
termination
  by (relation "measure (\<lambda>(w, ta, p, st). MAX_PLANNING_ITERATIONS - planning_iteration st)")
     (auto dest!: planning_cycle_iter[OF sym])

declare planning_loop.simps [simp del]

text \<open>\<^verbatim>\<open>_execute_planning_iterations\<close>\<close>

definition execute_planning_iterations ::
    "world \<Rightarrow> plan \<Rightarrow> pyval \<Rightarrow> agent \<Rightarrow> (error + plan) \<times> agent" where
  "execute_planning_iterations w p task_analysis st =
     planning_loop w task_analysis p (st\<lparr>planning_iteration := 0\<rparr>)"

text \<open>The states in which the condition of the \<^verbatim>\<open>while\<close> loop is evaluated during a run
  of the Iteration Engine on the plan \<open>p0\<close> from the agent state \<open>st0\<close>.\<close>

inductive loop_head :: "world \<Rightarrow> pyval \<Rightarrow> plan \<Rightarrow> agent \<Rightarrow> plan \<Rightarrow> agent \<Rightarrow> bool"
  for w ta p0 st0 where
    head_start: "loop_head w ta p0 st0 p0 (st0\<lparr>planning_iteration := 0\<rparr>)"
  | head_step: "\<lbrakk>loop_head w ta p0 st0 p st;
            planning_iteration st < MAX_PLANNING_ITERATIONS;
            planning_cycle w ta p st = (Inr p', st');
            is_planning_complete p' = Inr False\<rbrakk>
           \<Longrightarrow> loop_head w ta p0 st0 p' (st'\<lparr>planning_iteration := planning_iteration st' + 1\<rparr>)"

subsection \<open>Finalizing\<close>

text \<open>
  \<^verbatim>\<open>_generate_plan_summary\<close>: the values that the summary template interpolates; how they
  are rendered into text is left out, except that the \<^verbatim>\<open>:.1%\<close> format raises on a
  confidence that is no number.
\<close>

definition generate_plan_summary :: "plan \<Rightarrow> agent \<Rightarrow> error + summary_fields" where
  "generate_plan_summary p st =
     (case to_num (confidence p) of
        None \<Rightarrow> Inl (case confidence p of PStr _ \<Rightarrow> ValueError | _ \<Rightarrow> TypeError)
      | Some c \<Rightarrow>
          Inr \<lparr>sum_task_type = task_type p, sum_status = status p,
               sum_confidence = confidence p,
               sum_steps_completed = length (heap st (completed_steps p)),
               sum_weather_conditions = weather_conditions p,
               sum_activities = activities p,
               sum_contingency_plans = contingency_plans p,
               sum_created_at = created_at p,
               sum_completed_at = (case completed_at p of Some t \<Rightarrow> t | None \<Rightarrow> ''Unknown'')\<rparr>)"

text \<open>\<^verbatim>\<open>_finalize_plan\<close>\<close>

definition finalize_plan :: "world \<Rightarrow> plan \<Rightarrow> agent \<Rightarrow> (error + plan) \<times> agent" where
  "finalize_plan w p st =
     (case now_isoformat w st of
        (t, st1) \<Rightarrow>
          (let p1 = p\<lparr>status := ''completed'', completed_at := Some t\<rparr>
           in case generate_plan_summary p1 st1 of
                Inl e \<Rightarrow> (Inl e, st1)
              | Inr s \<Rightarrow>
                  (let p2 = p1\<lparr>summary := Some s\<rparr>
                   in (Inr p2, st1\<lparr>current_plan := Some p2\<rparr>))))"

text \<open>\<^verbatim>\<open>plan_weather_activity\<close>\<close>

definition plan_weather_activity ::
    "world \<Rightarrow> string \<Rightarrow> agent \<Rightarrow> (error + plan) \<times> agent" where
  "plan_weather_activity w task_description st =
     (case analyze_task w task_description st of
        (task_analysis, st1) \<Rightarrow>
          (case create_initial_plan w task_analysis st1 of
             (Inl e, st2) \<Rightarrow> (Inl e, st2)
           | (Inr initial_plan, st2) \<Rightarrow>
               (case execute_planning_iterations w initial_plan task_analysis st2 of
                  (Inl e, st3) \<Rightarrow> (Inl e, st3)
                | (Inr final_plan, st3) \<Rightarrow> finalize_plan w final_plan st3)))"

text \<open>A world in which the generation endpoint is down, used for concrete runs.\<close>

definition offline_world :: world where
  "offline_world =
     \<lparr>http_post = (\<lambda>_. Connection_error), json_loads = (\<lambda>_. None), clock = (\<lambda>_. ''t'')\<rparr>"

text \<open>The plan that the Plan Builder makes from the default analysis, and the agent state
  after it has done so in a fresh agent.\<close>

definition offline_plan :: plan where
  "offline_plan =
     \<lparr>task_type = PStr ''general_weather_planning'', status = ''planning'',
      steps = outdoor_activity_steps, current_step = 0, completed_steps = 0,
      weather_conditions = [], activities = [], contingency_plans = [],
      confidence = PFloat (1 / 2), created_at = ''t'', completed_at = None, summary = None\<rparr>"

definition offline_start :: agent where
  "offline_start = snd (create_initial_plan offline_world default_analysis init_agent)"


text \<open>The first of the example tasks.\<close>

definition literal_task :: string where
  "literal_task = ''Plan a weekend outdoor activity based on weather conditions''"






text \<open>The agent after planning the literal task with the generation endpoint down.\<close>

definition offline_final :: agent where
  "offline_final = snd (plan_weather_activity offline_world literal_task init_agent)"

section \<open>Properties of the ReAct planner\<close>

subsection \<open>Task Analyzer fallback and the iteration bound\<close>

lemma call_ollama_api_state:
  "snd (call_ollama_api w st) = st\<lparr>api_calls := api_calls st + 1\<rparr>"
  by (simp add: call_ollama_api_def)

text \<open>
  C5. If every call of the generation endpoint raises or returns something that
  \<^verbatim>\<open>json.loads\<close> rejects, the Task Analyzer returns the hard-coded default record, whatever
  the task and the state; it makes exactly one call (no retry) and changes nothing else.
\<close>

theorem analyze_task_fallback:
  assumes "\<forall>st. unusable w (fst (call_ollama_api w st))"
  shows "analyze_task w task_description st =
           (default_analysis, st\<lparr>api_calls := api_calls st + 1\<rparr>)"
proof -
  obtain r st' where c: "call_ollama_api w st = (r, st')"
    by (cases "call_ollama_api w st")
  have st': "st' = st\<lparr>api_calls := api_calls st + 1\<rparr>"
    using call_ollama_api_state [of w st] c by simp
  have "unusable w r"
    using assms c by (metis fst_conv)
  then show ?thesis
    using c st' by (auto simp: analyze_task_def unusable_def split: sum.splits)
qed

theorem analyze_task_fallback_witness:
  "(\<forall>st. unusable offline_world (fst (call_ollama_api offline_world st)))
   \<and> analyze_task offline_world ''Plan a weekend outdoor activity based on weather conditions''
        init_agent = (default_analysis, init_agent\<lparr>api_calls := 1\<rparr>)"
proof -
  have h: "\<forall>st. unusable offline_world (fst (call_ollama_api offline_world st))"
    by (simp add: unusable_def call_ollama_api_def offline_world_def)
  show ?thesis
    using h analyze_task_fallback [OF h, of "''Plan a weekend outdoor activity based on weather conditions''" init_agent]
    by (simp add: init_agent_def)
qed

lemma reason_calls:
  "reason_about_current_state w p ta st = (r, st') \<Longrightarrow> api_calls st' = api_calls st + 1
     \<and> planning_history st' = planning_history st"
  by (auto simp: reason_about_current_state_def call_ollama_api_def
      split: prod.splits sum.splits option.splits)

lemma execute_action_calls:
  "execute_action w a p ta st = (r, st') \<Longrightarrow> api_calls st' = api_calls st
     \<and> planning_history st' = planning_history st"
  by (auto simp: execute_action_def execute_planning_step_def now_isoformat_def
      split: if_splits option.splits sum.splits prod.splits)

lemma update_calls:
  "update_plan_based_on_result w p ar st = (r, st') \<Longrightarrow> api_calls st' = api_calls st
    \<and> length (planning_history st') \<le> length (planning_history st) + 1"
  by (auto simp: update_plan_based_on_result_def now_isoformat_def Let_def
      split: if_splits option.splits sum.splits prod.splits)

lemma planning_cycle_calls:
  assumes "planning_cycle w ta p st = (r, st')"
  shows "api_calls st' = api_calls st + 1"
    and "length (planning_history st') \<le> length (planning_history st) + 1"
proof -
  obtain rs st1 where a: "reason_about_current_state w p ta st = (rs, st1)"
    by (cases "reason_about_current_state w p ta st")
  obtain x st2 where b: "execute_action w (determine_next_action p rs) p ta st1 = (x, st2)"
    by (cases "execute_action w (determine_next_action p rs) p ta st1")
  note A = reason_calls [OF a] and B = execute_action_calls [OF b]
  show "api_calls st' = api_calls st + 1"
    using assms a b A B
    by (auto simp: planning_cycle_def split: sum.splits dest: update_calls)
  show "length (planning_history st') \<le> length (planning_history st) + 1"
    using assms a b A B
    by (auto simp: planning_cycle_def split: sum.splits dest: update_calls)
qed

lemma planning_loop_bounded:
  "planning_iteration st \<le> MAX_PLANNING_ITERATIONS \<Longrightarrow>
     api_calls (snd (planning_loop w ta p st)) + planning_iteration st
       \<le> api_calls st + MAX_PLANNING_ITERATIONS
   \<and> length (planning_history (snd (planning_loop w ta p st))) + planning_iteration st
       \<le> length (planning_history st) + MAX_PLANNING_ITERATIONS
   \<and> planning_iteration (snd (planning_loop w ta p st)) \<le> MAX_PLANNING_ITERATIONS"
proof (induction w ta p st rule: planning_loop.induct)
  case (1 w ta p st)
  show ?case
  proof (cases "planning_iteration st < MAX_PLANNING_ITERATIONS")
    case False
    then show ?thesis using "1.prems" by (simp add: planning_loop.simps [of w ta p st])
  next
    case True
    obtain r st' where c: "planning_cycle w ta p st = (r, st')"
      by (cases "planning_cycle w ta p st")
    note it = planning_cycle_iter [OF c] and cc = planning_cycle_calls [OF c]
    show ?thesis
    proof (cases r)
      case (Inl e)
      then show ?thesis using True c it cc by (simp add: planning_loop.simps [of w ta p st])
    next
      case (Inr p')
      show ?thesis
      proof (cases "is_planning_complete p'")
        case (Inl e)
        then show ?thesis using True c Inr it cc by (simp add: planning_loop.simps [of w ta p st])
      next
        case (Inr d)
        show ?thesis
        proof (cases d)
          case True
          then show ?thesis using \<open>planning_iteration st < MAX_PLANNING_ITERATIONS\<close> c \<open>r = Inr p'\<close> Inr it cc
            by (simp add: planning_loop.simps [of w ta p st])
        next
          case False
          have ih: "api_calls (snd (planning_loop w ta p' (st'\<lparr>planning_iteration := planning_iteration st' + 1\<rparr>)))
                      + (planning_iteration st' + 1) \<le> api_calls st' + MAX_PLANNING_ITERATIONS
               \<and> length (planning_history (snd (planning_loop w ta p' (st'\<lparr>planning_iteration := planning_iteration st' + 1\<rparr>))))
                      + (planning_iteration st' + 1) \<le> length (planning_history st') + MAX_PLANNING_ITERATIONS
               \<and> planning_iteration (snd (planning_loop w ta p' (st'\<lparr>planning_iteration := planning_iteration st' + 1\<rparr>))) \<le> MAX_PLANNING_ITERATIONS"
            using "1.IH" [OF \<open>planning_iteration st < MAX_PLANNING_ITERATIONS\<close> c [symmetric] \<open>r = Inr p'\<close> Inr False]
              \<open>planning_iteration st < MAX_PLANNING_ITERATIONS\<close> it by simp
          have eq: "planning_loop w ta p st = planning_loop w ta p' (st'\<lparr>planning_iteration := planning_iteration st' + 1\<rparr>)"
            using \<open>planning_iteration st < MAX_PLANNING_ITERATIONS\<close> c \<open>r = Inr p'\<close> Inr False
            by (simp add: planning_loop.simps [of w ta p st])
          show ?thesis using ih it cc unfolding eq by simp
        qed
      qed
    qed
  qed
qed

text \<open>
  C2. For every plan, task analysis, world and agent state, the Iteration Engine starts at
  most \<open>MAX_PLANNING_ITERATIONS = 5\<close> cycles: it makes at most five reasoning calls (each
  cycle makes exactly one), appends at most five history entries, and the iteration counter
  never passes five. This holds whether the loop returns a plan or raises.
\<close>

theorem planning_iterations_bounded:
  "MAX_PLANNING_ITERATIONS = 5
   \<and> api_calls (snd (execute_planning_iterations w p ta st)) \<le> api_calls st + 5
   \<and> length (planning_history (snd (execute_planning_iterations w p ta st)))
        \<le> length (planning_history st) + 5
   \<and> planning_iteration (snd (execute_planning_iterations w p ta st)) \<le> 5"
  using planning_loop_bounded [of "st\<lparr>planning_iteration := 0\<rparr>" w ta p]
  by (simp add: execute_planning_iterations_def MAX_PLANNING_ITERATIONS_def)



subsection \<open>What one cycle does\<close>

lemma handler_frame:
  "\<exists>r p1. (if c1 then execute_weather_step p (PDict kv)
            else if c2 then execute_activity_step p (PDict kv)
            else if c3 then execute_contingency_step p (PDict kv)
            else execute_general_step s p (PDict kv)) = Inr (r, p1)
       \<and> r_success r \<and> steps p1 = steps p
       \<and> current_step p1 = current_step p \<and> confidence p1 = confidence p
       \<and> completed_steps p1 = completed_steps p \<and> status p1 = status p"
  by (simp add: execute_weather_step_def execute_activity_step_def execute_contingency_step_def
      execute_general_step_def py_get_def Let_def)

lemma execute_action_step:
  assumes "current_step p < length (steps p)"
  shows "\<exists>r p1. execute_action w (determine_next_action p rs) p (PDict kv) st =
           (Inr (r, p1),
            st\<lparr>clock_reads := clock_reads st + 1,
               heap := (heap st)(completed_steps p := heap st (completed_steps p) @
                  [\<lparr>cs_step = steps p ! current_step p, cs_step_index = current_step p,
                    cs_result = r, cs_completed_at = clock w (clock_reads st)\<rparr>])\<rparr>)
         \<and> r_success r \<and> steps p1 = steps p \<and> current_step p1 = current_step p + 1
         \<and> confidence p1 = confidence p \<and> completed_steps p1 = completed_steps p
         \<and> status p1 = status p"
proof -
  let ?s = "steps p ! current_step p"
  let ?h = "if contains ''weather'' (lower ?s) then execute_weather_step p (PDict kv)
            else if contains ''activity'' (lower ?s) then execute_activity_step p (PDict kv)
            else if contains ''contingency'' (lower ?s)
              then execute_contingency_step p (PDict kv)
            else execute_general_step ?s p (PDict kv)"
  obtain r p1 where h: "?h = Inr (r, p1)" and f: "r_success r" "steps p1 = steps p"
    "current_step p1 = current_step p" "confidence p1 = confidence p"
    "completed_steps p1 = completed_steps p" "status p1 = status p"
    using handler_frame [of _ p kv _ _ ?s] by blast
  show ?thesis
    using assms f
    unfolding execute_action_def determine_next_action_def execute_planning_step_def
      now_isoformat_def
    by (simp add: h)
qed


lemma execute_action_frame:
  "execute_action w a p ta st = (Inr (r, p1), st') \<Longrightarrow>
     confidence p1 = confidence p \<and> status p1 = status p \<and> steps p1 = steps p
     \<and> completed_steps p1 = completed_steps p \<and> planning_history st' = planning_history st"
  by (auto simp: execute_action_def execute_planning_step_def now_isoformat_def
      execute_weather_step_def execute_activity_step_def execute_contingency_step_def
      execute_general_step_def Let_def
      split: if_splits option.splits sum.splits prod.splits)

lemma update_result:
  "update_plan_based_on_result w p ar st = (Inr p', st') \<Longrightarrow>
     (\<exists>c. to_num (confidence p) = Some c
         \<and> confidence p' = PFloat (update_confidence (r_success ar) c))
     \<and> status p' = (if r_success ar then ''planning_in_progress'' else ''planning_failed'')
     \<and> steps p' = steps p \<and> current_step p' = current_step p
     \<and> completed_steps p' = completed_steps p
     \<and> heap st' = heap st \<and> next_addr st' = next_addr st
     \<and> planning_history st' = planning_history st @
          [\<lparr>h_iteration = planning_iteration st, h_action_result = ar, h_plan_state = p',
            h_timestamp = clock w (clock_reads st)\<rparr>]"
  by (auto simp: update_plan_based_on_result_def now_isoformat_def Let_def
      split: option.splits)

lemma update_succeeds:
  "to_num (confidence p) = Some c \<Longrightarrow>
     \<exists>p' st'. update_plan_based_on_result w p ar st = (Inr p', st')"
  by (simp add: update_plan_based_on_result_def now_isoformat_def Let_def)

lemma reason_frame:
  "reason_about_current_state w p ta st = (r, st') \<Longrightarrow>
     planning_history st' = planning_history st \<and> heap st' = heap st
     \<and> next_addr st' = next_addr st \<and> clock_reads st' = clock_reads st"
  by (auto simp: reason_about_current_state_def call_ollama_api_def
      split: prod.splits sum.splits option.splits)

lemma planning_cycle_result:
  assumes "planning_cycle w ta p st = (Inr p', st')"
  shows "\<exists>c ar. to_num (confidence p) = Some c
            \<and> confidence p' = PFloat (update_confidence (r_success ar) c)
            \<and> status p' = (if r_success ar then ''planning_in_progress'' else ''planning_failed'')
            \<and> (\<exists>t. planning_history st' = planning_history st @
                 [\<lparr>h_iteration = planning_iteration st, h_action_result = ar,
                   h_plan_state = p', h_timestamp = t\<rparr>])"
    and "steps p' = steps p" and "completed_steps p' = completed_steps p"
proof -
  obtain rs st1 where a: "reason_about_current_state w p ta st = (rs, st1)"
    by (cases "reason_about_current_state w p ta st")
  obtain x st2 where b: "execute_action w (determine_next_action p rs) p ta st1 = (x, st2)"
    by (cases "execute_action w (determine_next_action p rs) p ta st1")
  from assms a b obtain ar p2 where x: "x = Inr (ar, p2)"
    and u: "update_plan_based_on_result w p2 ar st2 = (Inr p', st')"
    by (auto simp: planning_cycle_def split: sum.splits)
  note A = reason_frame [OF a] reason_iter [OF a]
  note B = execute_action_frame [OF b [unfolded x]] execute_action_iter [OF b]
  note U = update_result [OF u]
  show "\<exists>c ar. to_num (confidence p) = Some c
            \<and> confidence p' = PFloat (update_confidence (r_success ar) c)
            \<and> status p' = (if r_success ar then ''planning_in_progress'' else ''planning_failed'')
            \<and> (\<exists>t. planning_history st' = planning_history st @
                 [\<lparr>h_iteration = planning_iteration st, h_action_result = ar,
                   h_plan_state = p', h_timestamp = t\<rparr>])"
    using A B U by auto
  show "steps p' = steps p" using B U by simp
  show "completed_steps p' = completed_steps p" using B U by simp
qed

lemma planning_cycle_success:
  assumes "current_step p < length (steps p)" and "to_num (confidence p) = Some c"
  shows "\<exists>p' st'. planning_cycle w (PDict kv) p st = (Inr p', st')
           \<and> current_step p' = current_step p + 1
           \<and> confidence p' = PFloat (min (c + 1 / 10) 1)
           \<and> status p' = ''planning_in_progress''
           \<and> length (heap st' (completed_steps p)) = length (heap st (completed_steps p)) + 1"
proof -
  obtain rs st1 where a: "reason_about_current_state w p (PDict kv) st = (rs, st1)"
    by (cases "reason_about_current_state w p (PDict kv) st")
  obtain ar p2 st2 where
    b: "execute_action w (determine_next_action p rs) p (PDict kv) st1 = (Inr (ar, p2), st2)"
    and st2: "heap st2 (completed_steps p) = heap st1 (completed_steps p) @
          [\<lparr>cs_step = steps p ! current_step p, cs_step_index = current_step p,
            cs_result = ar, cs_completed_at = clock w (clock_reads st1)\<rparr>]"
    and f: "r_success ar" "current_step p2 = current_step p + 1" "confidence p2 = confidence p"
    using execute_action_step [OF assms(1), of w rs kv st1] by auto
  obtain p' st' where u: "update_plan_based_on_result w p2 ar st2 = (Inr p', st')"
    using update_succeeds [of p2 c w ar st2] assms(2) f by auto
  note A = reason_frame [OF a] and U = update_result [OF u]
  have "planning_cycle w (PDict kv) p st = (Inr p', st')"
    using a b u by (simp add: planning_cycle_def)
  then show ?thesis
    using A U f st2 assms(2) by (auto simp: update_confidence_def)
qed

text \<open>An invariant rule for the loop: \<open>I\<close> holds whenever the loop condition is
  evaluated, \<open>Q\<close> holds for the result on each of the four ways out.\<close>

lemma planning_loop_rule:
  assumes init: "I p st"
    and step: "\<And>p st p' st'. \<lbrakk>I p st; planning_iteration st < MAX_PLANNING_ITERATIONS;
        planning_cycle w ta p st = (Inr p', st'); is_planning_complete p' = Inr False\<rbrakk>
        \<Longrightarrow> I p' (st'\<lparr>planning_iteration := planning_iteration st' + 1\<rparr>)"
    and bound: "\<And>p st. \<lbrakk>I p st; \<not> planning_iteration st < MAX_PLANNING_ITERATIONS\<rbrakk>
        \<Longrightarrow> Q (Inr p, st)"
    and raise1: "\<And>p st e st'. \<lbrakk>I p st; planning_iteration st < MAX_PLANNING_ITERATIONS;
        planning_cycle w ta p st = (Inl e, st')\<rbrakk> \<Longrightarrow> Q (Inl e, st')"
    and raise2: "\<And>p st p' st' e. \<lbrakk>I p st; planning_iteration st < MAX_PLANNING_ITERATIONS;
        planning_cycle w ta p st = (Inr p', st'); is_planning_complete p' = Inl e\<rbrakk>
        \<Longrightarrow> Q (Inl e, st')"
    and break: "\<And>p st p' st'. \<lbrakk>I p st; planning_iteration st < MAX_PLANNING_ITERATIONS;
        planning_cycle w ta p st = (Inr p', st'); is_planning_complete p' = Inr True\<rbrakk>
        \<Longrightarrow> Q (Inr p', st')"
  shows "Q (planning_loop w ta p st)"
  using init
proof (induction "MAX_PLANNING_ITERATIONS - planning_iteration st" arbitrary: p st
    rule: less_induct)
  case less
  note init = less.prems
  show ?case
  proof (cases "planning_iteration st < MAX_PLANNING_ITERATIONS")
    case False
    then show ?thesis
      using bound [OF init] by (simp add: planning_loop.simps [of w ta p st])
  next
    case lt: True
    obtain r st' where c: "planning_cycle w ta p st = (r, st')"
      by (cases "planning_cycle w ta p st")
    show ?thesis
    proof (cases r)
      case (Inl e)
      then have "Q (Inl e, st')"
        using raise1 [OF init lt, of e st'] c by simp
      then show ?thesis
        using Inl c lt by (simp add: planning_loop.simps [of w ta p st])
    next
      case r: (Inr p')
      show ?thesis
      proof (cases "is_planning_complete p'")
        case (Inl e)
        then have "Q (Inl e, st')"
          using raise2 [OF init lt, of p' st' e] c r by simp
        then show ?thesis
          using Inl c r lt by (simp add: planning_loop.simps [of w ta p st])
      next
        case d: (Inr d)
        show ?thesis
        proof (cases d)
          case True
          then have "Q (Inr p', st')"
            using break [OF init lt, of p' st'] c r d by simp
          then show ?thesis
            using True c r d lt by (simp add: planning_loop.simps [of w ta p st])
        next
          case False
          let ?st = "st'\<lparr>planning_iteration := planning_iteration st' + 1\<rparr>"
          have "I p' ?st"
            using step [OF init lt, of p' st'] c r d False by simp
          moreover have "MAX_PLANNING_ITERATIONS - planning_iteration ?st
                           < MAX_PLANNING_ITERATIONS - planning_iteration st"
            using lt planning_cycle_iter [OF c] by simp
          ultimately have "Q (planning_loop w ta p' ?st)"
            using less.hyps by blast
          then show ?thesis
            using c r d False lt by (simp add: planning_loop.simps [of w ta p st])
        qed
      qed
    qed
  qed
qed



subsection \<open>The states of a run\<close>

lemma create_initial_plan_result:
  assumes "create_initial_plan w ta st = (Inr p, st')"
  shows "\<exists>kv. ta = PDict kv" and "status p = ''planning''" and "current_step p = 0"
    and "length (steps p) = 5" and "completed_steps p = next_addr st"
    and "heap st' (completed_steps p) = []" and "planning_history st' = planning_history st"
    and "py_get ta ''confidence'' (PFloat (1 / 2)) = Inr (confidence p)"
    and "weather_conditions p = []" "activities p = []" "contingency_plans p = []"
proof -
  have t: "length (template_steps tt) = 5" for tt
    by (auto simp: template_steps_def PLANNING_TEMPLATES_def outdoor_activity_steps_def
        travel_planning_steps_def daily_schedule_steps_def split: pyval.splits)
  show "\<exists>kv. ta = PDict kv" and "status p = ''planning''" and "current_step p = 0"
    and "length (steps p) = 5" and "completed_steps p = next_addr st"
    and "heap st' (completed_steps p) = []" and "planning_history st' = planning_history st"
    and "py_get ta ''confidence'' (PFloat (1 / 2)) = Inr (confidence p)"
    and "weather_conditions p = []" "activities p = []" "contingency_plans p = []"
    using assms t
    by (auto simp: create_initial_plan_def py_get_def now_isoformat_def
        split: pyval.splits if_splits sum.splits)
qed

lemma loop_head_rest:
  "loop_head w ta p0 st0 p st \<Longrightarrow>
     planning_loop w ta p st = execute_planning_iterations w p0 ta st0"
proof (induction rule: loop_head.induct)
  case head_start
  show ?case by (simp add: execute_planning_iterations_def)
next
  case (head_step p st p' st')
  then show ?case by (simp add: planning_loop.simps [of w ta p st])
qed

lemma loop_head_initial:
  assumes c: "create_initial_plan w ta st = (Inr p0, st0)"
    and h: "loop_head w ta p0 st0 p st'"
  shows "current_step p = planning_iteration st' \<and> length (steps p) = 5
         \<and> completed_steps p = completed_steps p0
         \<and> length (heap st' (completed_steps p0)) = planning_iteration st'"
  using h
proof (induction rule: loop_head.induct)
  case head_start
  show ?case using create_initial_plan_result [OF c] by simp
next
  case step: (head_step p st1 p' st2)
  obtain kv where ta: "ta = PDict kv" using create_initial_plan_result(1) [OF c] by blast
  have lt: "current_step p < length (steps p)"
    using step by (simp add: MAX_PLANNING_ITERATIONS_def)
  obtain c0 where c0: "to_num (confidence p) = Some c0"
    using planning_cycle_result(1) [OF step(3)] by blast
  from planning_cycle_success [OF lt c0, of w kv st1] step(3) ta
  have "current_step p' = current_step p + 1"
    "length (heap st2 (completed_steps p)) = length (heap st1 (completed_steps p)) + 1"
    by auto
  then show ?case
    using step planning_cycle_result(2,3) [OF step(3)] planning_cycle_iter [OF step(3)]
    by simp
qed

text \<open>
  C10. With \<open>MAX_PLANNING_ITERATIONS = 5\<close> and five steps in every template, in every state
  in which the loop of a run started on a freshly built plan enters its body, the step index
  equals the iteration counter and is below five; so \<^verbatim>\<open>_determine_next_action\<close> returns an
  \<^verbatim>\<open>execute_step\<close> action there, whatever the reasoning, and \<^verbatim>\<open>_execute_action\<close> does not
  reach the \<^verbatim>\<open>finalize_plan\<close> branch with its AttributeError.
\<close>

theorem finalize_branch_unreachable:
  assumes "create_initial_plan w ta st = (Inr p0, st0)"
    and "loop_head w ta p0 st0 p st'"
    and "planning_iteration st' < MAX_PLANNING_ITERATIONS"
  shows "a_type (determine_next_action p reasoning) = ''execute_step''
         \<and> a_type (determine_next_action p reasoning) \<noteq> ''finalize_plan''
         \<and> fst (execute_action w (determine_next_action p reasoning) p ta st'') \<noteq> Inl AttributeError"
proof -
  obtain kv where ta: "ta = PDict kv" using create_initial_plan_result(1) [OF assms(1)] by blast
  have lt: "current_step p < length (steps p)"
    using loop_head_initial [OF assms(1,2)] assms(3) by (simp add: MAX_PLANNING_ITERATIONS_def)
  then have "a_type (determine_next_action p reasoning) = ''execute_step''"
    by (simp add: determine_next_action_def)
  moreover have "fst (execute_action w (determine_next_action p reasoning) p ta st'') \<noteq> Inl AttributeError"
    using execute_action_step [OF lt, of w reasoning kv st''] ta by auto
  ultimately show ?thesis by simp
qed



subsection \<open>Runs of the Iteration Engine\<close>

lemma offline_create:
  "create_initial_plan offline_world default_analysis init_agent = (Inr offline_plan, offline_start)"
  by (simp add: offline_start_def create_initial_plan_def default_analysis_def py_get_def
      now_isoformat_def offline_world_def init_agent_def offline_plan_def template_steps_def
      PLANNING_TEMPLATES_def)

theorem finalize_branch_unreachable_witness:
  "create_initial_plan offline_world default_analysis init_agent = (Inr offline_plan, offline_start)
   \<and> loop_head offline_world default_analysis offline_plan offline_start offline_plan
        (offline_start\<lparr>planning_iteration := 0\<rparr>)
   \<and> planning_iteration (offline_start\<lparr>planning_iteration := 0\<rparr>) < MAX_PLANNING_ITERATIONS
   \<and> a_type (determine_next_action offline_plan PNone) = ''execute_step''
   \<and> fst (execute_action offline_world (determine_next_action offline_plan PNone) offline_plan
        default_analysis offline_start) \<noteq> Inl AttributeError"
proof -
  have h: "loop_head offline_world default_analysis offline_plan offline_start offline_plan
        (offline_start\<lparr>planning_iteration := 0\<rparr>)"
    by (rule loop_head.head_start)
  have lt: "planning_iteration (offline_start\<lparr>planning_iteration := 0\<rparr>) < MAX_PLANNING_ITERATIONS"
    by (simp add: MAX_PLANNING_ITERATIONS_def)
  show ?thesis
    using offline_create h lt
      finalize_branch_unreachable [OF offline_create h lt, of PNone offline_start]
    by simp
qed

lemma is_planning_complete_float:
  "is_planning_complete (p\<lparr>confidence := PFloat c\<rparr>) \<noteq> Inl e"
  by (simp add: is_planning_complete_def)


lemma planning_loop_returns:
  assumes "current_step p = planning_iteration st" and "length (steps p) = 5"
    and "to_num (confidence p) = Some c"
  shows "\<exists>p' st' c'. planning_loop w (PDict kv) p st = (Inr p', st')
           \<and> to_num (confidence p') = Some c'"
proof -
  let ?I = "\<lambda>p s. current_step p = planning_iteration s \<and> length (steps p) = 5
              \<and> (\<exists>c. to_num (confidence p) = Some c)"
  let ?Q = "\<lambda>r. \<exists>p' st' c'. r = (Inr p', st') \<and> to_num (confidence p') = Some c'"
  show ?thesis
  proof (rule planning_loop_rule [where I = ?I and Q = ?Q])
    show "?I p st" using assms by simp
  next
    fix p s p' s'
    assume I: "?I p s" and lt: "planning_iteration s < MAX_PLANNING_ITERATIONS"
      and c: "planning_cycle w (PDict kv) p s = (Inr p', s')"
    from I obtain c0 where c0: "to_num (confidence p) = Some c0" by blast
    have l: "current_step p < length (steps p)"
      using I lt by (simp add: MAX_PLANNING_ITERATIONS_def)
    from planning_cycle_success [OF l c0, of w kv s] c
    have "current_step p' = current_step p + 1" "confidence p' = PFloat (min (c0 + 1 / 10) 1)"
      by auto
    then show "?I p' (s'\<lparr>planning_iteration := planning_iteration s' + 1\<rparr>)"
      using I planning_cycle_result(2) [OF c] planning_cycle_iter [OF c] by simp
  next
    fix p s
    assume "?I p s"
    then show "?Q (Inr p, s)" by simp
  next
    fix p s e s'
    assume I: "?I p s" and lt: "planning_iteration s < MAX_PLANNING_ITERATIONS"
      and c: "planning_cycle w (PDict kv) p s = (Inl e, s')"
    from I obtain c0 where c0: "to_num (confidence p) = Some c0" by blast
    have l: "current_step p < length (steps p)"
      using I lt by (simp add: MAX_PLANNING_ITERATIONS_def)
    from planning_cycle_success [OF l c0, of w kv s] c show "?Q (Inl e, s')" by auto
  next
    fix p s p' s' e
    assume c: "planning_cycle w (PDict kv) p s = (Inr p', s')"
      and d: "is_planning_complete p' = Inl e"
    from planning_cycle_result(1) [OF c] d show "?Q (Inl e, s')"
      by (auto simp: is_planning_complete_def)
  next
    fix p s p' s'
    assume c: "planning_cycle w (PDict kv) p s = (Inr p', s')"
    from planning_cycle_result(1) [OF c] show "?Q (Inr p', s')" by auto
  qed
qed

lemma planning_loop_counts:
  assumes "planning_loop w (PDict kv) p st = (Inr p', st')"
    and "current_step p = planning_iteration st" and "length (steps p) = 5"
    and "length (heap st (completed_steps p)) = planning_iteration st"
    and "planning_iteration st \<le> MAX_PLANNING_ITERATIONS"
  shows "current_step p' = 5 \<and> length (steps p') = 5
         \<and> completed_steps p' = completed_steps p
         \<and> length (heap st' (completed_steps p)) = 5"
proof -
  let ?a = "completed_steps p"
  let ?I = "\<lambda>p s. current_step p = planning_iteration s \<and> length (steps p) = 5
              \<and> completed_steps p = ?a \<and> length (heap s ?a) = planning_iteration s
              \<and> planning_iteration s \<le> MAX_PLANNING_ITERATIONS"
  let ?Q = "\<lambda>r. \<forall>p' st'. r = (Inr p', st') \<longrightarrow> current_step p' = 5 \<and> length (steps p') = 5
         \<and> completed_steps p' = ?a \<and> length (heap st' ?a) = 5"
  have step: "current_step p' = current_step p + 1 \<and> length (steps p') = 5
              \<and> completed_steps p' = ?a
              \<and> length (heap s' ?a) = planning_iteration s + 1
              \<and> planning_iteration s' = planning_iteration s"
    if I: "?I p s" and lt: "planning_iteration s < MAX_PLANNING_ITERATIONS"
      and c: "planning_cycle w (PDict kv) p s = (Inr p', s')" for p s p' s'
  proof -
    obtain c0 where c0: "to_num (confidence p) = Some c0"
      using planning_cycle_result(1) [OF c] by blast
    have l: "current_step p < length (steps p)"
      using I lt by (simp add: MAX_PLANNING_ITERATIONS_def)
    from planning_cycle_success [OF l c0, of w kv s] c
    have "current_step p' = current_step p + 1"
      "length (heap s' (completed_steps p)) = length (heap s (completed_steps p)) + 1"
      by auto
    then show ?thesis
      using I planning_cycle_result(2,3) [OF c] planning_cycle_iter [OF c] by simp
  qed
  have "?Q (planning_loop w (PDict kv) p st)"
  proof (rule planning_loop_rule [where I = ?I and Q = ?Q])
    show "?I p st" using assms by simp
  next
    fix p s p' s'
    assume I: "?I p s" and lt: "planning_iteration s < MAX_PLANNING_ITERATIONS"
      and c: "planning_cycle w (PDict kv) p s = (Inr p', s')"
    show "?I p' (s'\<lparr>planning_iteration := planning_iteration s' + 1\<rparr>)"
      using step [OF I lt c] I lt by simp
  next
    fix p s
    assume "?I p s" and "\<not> planning_iteration s < MAX_PLANNING_ITERATIONS"
    then show "?Q (Inr p, s)" by (simp add: MAX_PLANNING_ITERATIONS_def)
  next
    fix p s e s'
    show "?Q (Inl e, s')" by simp
  next
    fix p s p' s' e
    show "?Q (Inl e, s')" by simp
  next
    fix p s p' s'
    assume I: "?I p s" and lt: "planning_iteration s < MAX_PLANNING_ITERATIONS"
      and c: "planning_cycle w (PDict kv) p s = (Inr p', s')"
      and d: "is_planning_complete p' = Inr True"
    have "current_step p' \<ge> length (steps p')"
      using d by (auto simp: is_planning_complete_def split: option.splits)
    then show "?Q (Inr p', s')"
      using step [OF I lt c] I lt by (simp add: MAX_PLANNING_ITERATIONS_def)
  qed
  then show ?thesis using assms(1) by simp
qed

lemma finalize_plan_result:
  assumes "finalize_plan w p st = (Inr p', st')"
  shows "status p' = ''completed''" and "completed_steps p' = completed_steps p"
    and "heap st' = heap st" and "steps p' = steps p" and "current_step p' = current_step p"
    and "planning_history st' = planning_history st" and "confidence p' = confidence p"
  using assms
  by (auto simp: finalize_plan_def now_isoformat_def generate_plan_summary_def Let_def
      split: option.splits sum.splits)

lemma finalize_plan_returns:
  "to_num (confidence p) = Some c \<Longrightarrow> \<exists>p' st'. finalize_plan w p st = (Inr p', st')"
  by (simp add: finalize_plan_def now_isoformat_def generate_plan_summary_def Let_def)

text \<open>
  C6. Whenever \<^verbatim>\<open>plan_weather_activity\<close> returns a plan (for the literal task as for any
  other, since every template has five steps), the plan has five steps, its step index is 5
  and its list of completed steps has exactly five entries.
\<close>
theorem completed_steps_count:
  assumes "plan_weather_activity w task_description st = (Inr p, st')"
  shows "length (steps p) = 5 \<and> current_step p = 5
         \<and> length (heap st' (completed_steps p)) = 5"
proof -
  obtain ta st1 where a: "analyze_task w task_description st = (ta, st1)"
    by (cases "analyze_task w task_description st")
  from assms a obtain p0 st2 where c: "create_initial_plan w ta st1 = (Inr p0, st2)"
    by (auto simp: plan_weather_activity_def split: sum.splits prod.splits)
  from assms a c obtain pf st3 where
    l: "execute_planning_iterations w p0 ta st2 = (Inr pf, st3)"
    and f: "finalize_plan w pf st3 = (Inr p, st')"
    by (auto simp: plan_weather_activity_def split: sum.splits prod.splits)
  note C = create_initial_plan_result [OF c]
  obtain kv where ta: "ta = PDict kv" using C(1) by blast
  have "current_step pf = 5 \<and> length (steps pf) = 5
         \<and> completed_steps pf = completed_steps p0
         \<and> length (heap st3 (completed_steps p0)) = 5"
    using planning_loop_counts [of w kv p0 "st2\<lparr>planning_iteration := 0\<rparr>" pf st3]
      l C ta by (simp add: execute_planning_iterations_def)
  then show ?thesis using finalize_plan_result [OF f] by simp
qed

lemma plan_weather_activity_returns:
  assumes "fst (analyze_task w task_description st) = PDict kv"
    and "hashable (case map_of kv ''task_type'' of Some v \<Rightarrow> v | None \<Rightarrow> PStr ''general_weather_planning'')"
    and "to_num (case map_of kv ''confidence'' of Some v \<Rightarrow> v | None \<Rightarrow> PFloat (1 / 2)) = Some c"
  shows "\<exists>p st'. plan_weather_activity w task_description st = (Inr p, st')"
proof -
  obtain st1 where a: "analyze_task w task_description st = (PDict kv, st1)"
    using assms(1) by (cases "analyze_task w task_description st") simp
  obtain p0 st2 where c: "create_initial_plan w (PDict kv) st1 = (Inr p0, st2)"
    using assms(2) by (simp add: create_initial_plan_def py_get_def now_isoformat_def)
  note C = create_initial_plan_result [OF c]
  have n: "to_num (confidence p0) = Some c"
    using C(8) assms(3) by (simp add: py_get_def)
  obtain pf st3 c' where l: "execute_planning_iterations w p0 (PDict kv) st2 = (Inr pf, st3)"
    and n': "to_num (confidence pf) = Some c'"
    using planning_loop_returns [of p0 "st2\<lparr>planning_iteration := 0\<rparr>" c w kv] C n
    by (auto simp: execute_planning_iterations_def)
  obtain p st' where f: "finalize_plan w pf st3 = (Inr p, st')"
    using finalize_plan_returns [OF n'] by blast
  show ?thesis
    using a c l f by (simp add: plan_weather_activity_def)
qed

lemma offline_analysis:
  "fst (analyze_task offline_world td st) = default_analysis"
  by (simp add: analyze_task_def call_ollama_api_def offline_world_def)

theorem completed_steps_count_witness:
  "\<exists>p st'. plan_weather_activity offline_world literal_task init_agent = (Inr p, st')
      \<and> length (steps p) = 5 \<and> current_step p = 5
      \<and> length (heap st' (completed_steps p)) = 5"
proof -
  obtain p st' where r: "plan_weather_activity offline_world literal_task init_agent = (Inr p, st')"
    using plan_weather_activity_returns [of offline_world literal_task init_agent _ "1 / 2"]
      offline_analysis [of literal_task init_agent]
    by (auto simp: default_analysis_def)
  show ?thesis
    using r completed_steps_count [OF r] by blast
qed






subsection \<open>Confidence\<close>










subsection \<open>Status and history snapshots\<close>





lemma offline_final_snapshots:
  "map (\<lambda>e. (status (h_plan_state e), current_step (h_plan_state e),
              completed_steps (h_plan_state e))) (planning_history offline_final)
   = [(''planning_in_progress'', 1, 0), (''planning_in_progress'', 2, 0),
      (''planning_in_progress'', 3, 0), (''planning_in_progress'', 4, 0),
      (''planning_in_progress'', 5, 0)]"
  by code_simp

lemma offline_final_heap: "length (heap offline_final 0) = 5"
  by code_simp


text \<open>
  C9 at a concrete run (the literal task, endpoint down). The snapshot appended by the
  k-th iteration keeps the step index k it had at append time, but its list of completed
  steps is the plan's own list, which later iterations go on appending to: at the end of
  the run every snapshot, the first one included, shows five completed steps.
\<close>
theorem snapshot_shares_completed_steps:
  "map (current_step \<circ> h_plan_state) (planning_history offline_final) = [1, 2, 3, 4, 5]
   \<and> map (\<lambda>e. length (heap offline_final (completed_steps (h_plan_state e))))
        (planning_history offline_final) = [5, 5, 5, 5, 5]"
proof -
  let ?f = "\<lambda>e. (status (h_plan_state e), current_step (h_plan_state e),
              completed_steps (h_plan_state e))"
  have a: "map (current_step \<circ> h_plan_state) (planning_history offline_final)
        = map (fst \<circ> snd) (map ?f (planning_history offline_final))"
    by (simp add: comp_def)
  have b: "map (\<lambda>e. length (heap offline_final (completed_steps (h_plan_state e))))
        (planning_history offline_final)
        = map (\<lambda>t. length (heap offline_final (snd (snd t)))) (map ?f (planning_history offline_final))"
    by (simp add: comp_def)
  show ?thesis
    unfolding a b offline_final_snapshots by (simp add: offline_final_heap)
qed

end
